theory Spec2Isabelle
  imports Main
begin

section \<open>Strings\<close>

text \<open>
  A JavaScript string is modelled as a \<^typ>\<open>string\<close> holding its UTF-8 bytes. Every
  character the code inspects (the colon, the word characters of the placeholder pattern,
  the dollar patterns of a replacement string) is ASCII, and no byte of a multi-byte
  UTF-8 sequence is ASCII, so scanning bytes finds the same matches as scanning UTF-16
  code units.
\<close>

definition isWordChar :: "char \<Rightarrow> bool" where
  \<comment> \<open>the character class \<open>[a-zA-Z0-9_]\<close>\<close>
  "isWordChar c \<longleftrightarrow>
     c \<in> set (''abcdefghijklmnopqrstuvwxyz'' @ ''ABCDEFGHIJKLMNOPQRSTUVWXYZ'' @ ''0123456789_'')"

definition isDigit :: "char \<Rightarrow> bool" where
  "isDigit c \<longleftrightarrow> c \<in> set ''0123456789''"

definition digitValue :: "char \<Rightarrow> nat" where
  "digitValue c = of_char c - 48"

section \<open>Path variable substitution (\<open>replacePathVariables\<close>)\<close>

text \<open>
  \<open>GetSubstitution\<close> expands a replacement string for one match of a regular expression
  with exactly one capture group and no named groups, as \<open>String.prototype.replace\<close>
  does for the pattern \<open>/:([a-zA-Z0-9_]+)/g\<close>:
  \<open>$$\<close> is a dollar sign, \<open>$&\<close> the match, \<open>$`\<close> the text before the match,
  \<open>$'\<close> the text after it, \<open>$1\<close> and \<open>$01\<close> the capture; a two-digit reference
  above the number of groups is read as a one-digit reference followed by a literal
  digit; every other character, and every other use of the dollar sign, is literal.
  The arguments are the match, the subject before the match, the subject after the
  match, the capture and the replacement template.
\<close>

fun GetSubstitution :: "string \<Rightarrow> string \<Rightarrow> string \<Rightarrow> string \<Rightarrow> string \<Rightarrow> string" where
  "GetSubstitution matched pre post cap [] = []"
| "GetSubstitution matched pre post cap [c] = [c]"
| "GetSubstitution matched pre post cap (c # d # t) =
     (if c \<noteq> CHR ''$'' then c # GetSubstitution matched pre post cap (d # t)
      else if d = CHR ''$'' then CHR ''$'' # GetSubstitution matched pre post cap t
      else if d = CHR 0x60 then pre @ GetSubstitution matched pre post cap t
      else if d = CHR ''&'' then matched @ GetSubstitution matched pre post cap t
      else if d = CHR 0x27 then post @ GetSubstitution matched pre post cap t
      else if isDigit d then
        (case t of
           e # t' \<Rightarrow>
             if isDigit e \<and> digitValue d * 10 + digitValue e \<le> 1 then
               (if digitValue d * 10 + digitValue e = 1 then cap else [c, d, e])
                 @ GetSubstitution matched pre post cap t'
             else
               (if digitValue d = 1 then cap else [c, d])
                 @ GetSubstitution matched pre post cap t
         | [] \<Rightarrow> if digitValue d = 1 then cap else [c, d])
      else c # GetSubstitution matched pre post cap (d # t))"

text \<open>
  \<open>replaceAll pre s repl\<close> is \<open>(pre + s).replace(/:([a-zA-Z0-9_]+)/g, repl)\<close> with the
  prefix \<open>pre\<close> already scanned and copied: a match starts at a colon followed by at
  least one word character and takes the longest run of word characters; scanning
  resumes after the match.
\<close>

function replaceAll :: "string \<Rightarrow> string \<Rightarrow> string \<Rightarrow> string" where
  "replaceAll pre [] repl = []"
| "replaceAll pre (c # cs) repl =
     (if c = CHR '':'' \<and> takeWhile isWordChar cs \<noteq> [] then
        GetSubstitution (c # takeWhile isWordChar cs) pre (dropWhile isWordChar cs)
            (takeWhile isWordChar cs) repl
          @ replaceAll (pre @ c # takeWhile isWordChar cs) (dropWhile isWordChar cs) repl
      else c # replaceAll (pre @ [c]) cs repl)"
  by pat_completeness auto
termination
  by (relation "measure (\<lambda>(pre, s, repl). length s)")
     (auto simp: length_dropWhile_le less_Suc_eq_le)

text \<open>
  The path-variable object is the list of its own enumerable properties in \<open>for ... in\<close>
  order, each value already converted by \<open>String(...)\<close> (the identity on strings).
  Every iteration assigns \<open>url.replace(...)\<close>, computed from the original \<open>url\<close>, to
  \<open>requestUrl\<close>.
\<close>

type_synonym pathVariables = "(string \<times> string) list"

definition replacePathVariables :: "string \<Rightarrow> pathVariables \<Rightarrow> string" where
  "replacePathVariables url pathVariables =
     foldl (\<lambda>requestUrl (key, v). replaceAll [] url v) url pathVariables"

section \<open>Data model\<close>

text \<open>
  Modelled from the spec: the declaration of \<open>InternalToken.Token\<close> is not among the
  sources. The token record has the four fields of the spec's data model; the two expiry
  fields are timestamps in milliseconds, compared with \<open>Date.now()\<close>.
\<close>

record token =
  access :: string
  refresh :: string
  accessExpiredAt :: int
  refreshExpiredAt :: int

text \<open>
  What \<open>getToken\<close> returns: the parsed record, or the empty object \<open>{}\<close> when nothing
  is stored. Both are objects, so both are truthy; every field of \<open>{}\<close> reads
  \<open>undefined\<close> (\<open>None\<close>).
\<close>

datatype tokenValue = EmptyObject | Token token

definition truthy :: "tokenValue \<Rightarrow> bool" where
  "truthy v = (case v of EmptyObject \<Rightarrow> True | Token t \<Rightarrow> True)"

definition field :: "(token \<Rightarrow> 'b) \<Rightarrow> tokenValue \<Rightarrow> 'b option" where
  "field f v = (case v of EmptyObject \<Rightarrow> None | Token t \<Rightarrow> Some (f t))"

definition templateString :: "string option \<Rightarrow> string" where
  \<comment> \<open>a string value inside a template literal; \<open>undefined\<close> prints as its name\<close>
  "templateString v = (case v of None \<Rightarrow> ''undefined'' | Some s \<Rightarrow> s)"

definition orElse :: "string option \<Rightarrow> string \<Rightarrow> string" where
  \<comment> \<open>\<open>v || d\<close> on an optional string: \<open>undefined\<close> and the empty string are falsy\<close>
  "orElse v d = (case v of None \<Rightarrow> d | Some s \<Rightarrow> if s = [] then d else s)"

definition laterThan :: "int \<Rightarrow> int option \<Rightarrow> bool" where
  \<comment> \<open>\<open>now > x\<close>; a comparison with \<open>undefined\<close> is false\<close>
  "laterThan now x = (case x of None \<Rightarrow> False | Some y \<Rightarrow> now > y)"

text \<open>
  The request descriptor: the transport options that are passed on (\<open>headers\<close> and the
  remaining options \<open>config\<close>, opaque), \<open>url\<close>, \<open>params\<close>, the optional path-variable
  object and the three policy flags (an absent flag is \<open>False\<close>).
\<close>

record ('d, 'q) AxiosRequestConfig =
  url :: string
  params :: 'q
  headers :: "string \<rightharpoonup> string"
  config :: 'd

record ('d, 'q) RequestConfig = "('d, 'q) AxiosRequestConfig" +
  pathVariables :: "pathVariables option"
  ignoreAuth :: bool
  silentError :: bool
  throwError :: bool

text \<open>The response envelope returned to the caller.\<close>

datatype errorCode = Num int | Str string

datatype 'a Response =
    Success 'a
  | Failure "errorCode option" "string option"

text \<open>
  What the transport resolves with: \<open>status\<close> and the body \<open>data\<close>, of which the code
  reads \<open>data.data\<close> and \<open>data.errorMessage\<close>.
\<close>

record 'a ResponseBody =
  body_data :: 'a
  body_errorMessage :: "string option"

record 'a AxiosResponse =
  status :: int
  data :: "'a ResponseBody"

text \<open>
  A caught error: \<open>response\<close> (with \<open>response.status\<close> and \<open>response.data?.message\<close>)
  when the server answered, \<open>code\<close> and \<open>message\<close>. \<open>new Error(m)\<close> has only a message.
\<close>

record ErrorResponse =
  error_status :: int
  error_message :: "string option"

record JsError =
  response :: "ErrorResponse option"
  code :: "string option"
  message :: "string option"

definition newError :: "string \<Rightarrow> JsError" where
  "newError m = \<lparr>response = None, code = None, message = Some m\<rparr>"

datatype 'a AxiosOutcome = Resolves "'a AxiosResponse" | Rejects JsError

text \<open>
  What the refresh collaborator resolves with, \<open>None\<close> for a falsy value
  (the code tests \<open>newToken && newToken.success\<close>).
\<close>

record RefreshResponse =
  success :: bool
  newData :: token

datatype RefreshOutcome = RefreshResolves "RefreshResponse option" | RefreshRejects JsError

text \<open>How the promise returned by \<open>request\<close> settles.\<close>

datatype 'a Settled = Fulfilled "'a Response" | Rejected JsError

section \<open>The world: token store, collaborators, effects\<close>

text \<open>
  Every effect of a call is appended to a trace: a transport dispatch with its
  configuration, a call of the refresh collaborator with the \<open>refreshToken\<close> it was
  given, a notifier call with its message, a write or removal of the stored token, and a
  reading of the clock. The store holds the item \<open>token\<close> of \<open>localStorage\<close> as the
  record it is the JSON text of.
\<close>

datatype ('d, 'q) event =
    Dispatch "('d, 'q) AxiosRequestConfig"
  | Refresh "string option"
  | ShowError string
  | SetItem token
  | RemoveItem
  | DateNow

record ('d, 'q) world =
  localStorage :: "token option"
  events :: "('d, 'q) event list"

text \<open>
  The collaborators are outside the program: each answer may depend on everything that
  has happened so far (the trace) and on the argument of the call.
\<close>

record ('d, 'q, 'a) env =
  axios :: "('d, 'q) event list \<Rightarrow> ('d, 'q) AxiosRequestConfig \<Rightarrow> 'a AxiosOutcome"
  refreshToken :: "('d, 'q) event list \<Rightarrow> string option \<Rightarrow> RefreshOutcome"
  now :: "('d, 'q) event list \<Rightarrow> int"

definition emit :: "('d, 'q) event \<Rightarrow> ('d, 'q) world \<Rightarrow> ('d, 'q) world" where
  "emit e w = w\<lparr>events := events w @ [e]\<rparr>"

subsection \<open>Token store (\<open>token.ts\<close>)\<close>

definition getToken :: "('d, 'q) world \<Rightarrow> tokenValue" where
  "getToken w = (case localStorage w of None \<Rightarrow> EmptyObject | Some t \<Rightarrow> Token t)"

definition setToken :: "token \<Rightarrow> ('d, 'q) world \<Rightarrow> ('d, 'q) world" where
  "setToken t w = emit (SetItem t) (w\<lparr>localStorage := Some t\<rparr>)"

definition deleteToken :: "('d, 'q) world \<Rightarrow> ('d, 'q) world" where
  "deleteToken w = emit RemoveItem (w\<lparr>localStorage := None\<rparr>)"

subsection \<open>Notifier\<close>

definition showError :: "string \<Rightarrow> ('d, 'q) world \<Rightarrow> ('d, 'q) world" where
  "showError m w = emit (ShowError m) w"

subsection \<open>Expiry predicates\<close>

definition isTokenExpired ::
  "('d, 'q, 'a) env \<Rightarrow> tokenValue \<Rightarrow> ('d, 'q) world \<Rightarrow> bool \<times> ('d, 'q) world" where
  "isTokenExpired env tk w =
     (let n = now env (events w)
      in (laterThan n (field accessExpiredAt tk) \<or> laterThan n (field refreshExpiredAt tk),
          emit DateNow w))"

definition isRefreshTokenExpired ::
  "('d, 'q, 'a) env \<Rightarrow> tokenValue \<Rightarrow> ('d, 'q) world \<Rightarrow> bool \<times> ('d, 'q) world" where
  "isRefreshTokenExpired env tk w =
     (let n = now env (events w)
      in (laterThan n (field refreshExpiredAt tk), emit DateNow w))"

section \<open>The fixed messages\<close>

text \<open>
  The messages of the source are Chinese string literals; each constant holds the UTF-8
  bytes of its literal. The notifier's two refresh messages are the envelope's messages
  followed by a full-width comma and "please log in again".
\<close>

definition msgRequestFailed :: string where
  \<comment> \<open>the default message of a failed request (four CJK characters, "request failed")\<close>
  "msgRequestFailed =
     [CHR 0xE8, CHR 0xAF, CHR 0xB7, CHR 0xE6, CHR 0xB1, CHR 0x82, CHR 0xE5, CHR 0xA4, CHR 0xB1,
      CHR 0xE8, CHR 0xB4, CHR 0xA5]"

definition msgRefreshExpired :: string where
  \<comment> \<open>"the refresh token has expired"\<close>
  "msgRefreshExpired =
     [CHR 0xE5, CHR 0x88, CHR 0xB7, CHR 0xE6, CHR 0x96, CHR 0xB0, CHR 0xE4, CHR 0xBB, CHR 0xA4,
      CHR 0xE7, CHR 0x89, CHR 0x8C, CHR 0xE5, CHR 0xB7, CHR 0xB2, CHR 0xE8, CHR 0xBF, CHR 0x87,
      CHR 0xE6, CHR 0x9C, CHR 0x9F]"

definition msgRelogin :: string where
  \<comment> \<open>the suffix ", please log in again" of the two notifier messages\<close>
  "msgRelogin =
     [CHR 0xEF, CHR 0xBC, CHR 0x8C, CHR 0xE8, CHR 0xAF, CHR 0xB7, CHR 0xE9, CHR 0x87, CHR 0x8D,
      CHR 0xE6, CHR 0x96, CHR 0xB0, CHR 0xE7, CHR 0x99, CHR 0xBB, CHR 0xE5, CHR 0xBD, CHR 0x95]"

definition msgRefreshFailed :: string where
  \<comment> \<open>"refreshing the token failed"\<close>
  "msgRefreshFailed =
     [CHR 0xE5, CHR 0x88, CHR 0xB7, CHR 0xE6, CHR 0x96, CHR 0xB0, CHR 0xE4, CHR 0xBB, CHR 0xA4,
      CHR 0xE7, CHR 0x89, CHR 0x8C, CHR 0xE5, CHR 0xA4, CHR 0xB1, CHR 0xE8, CHR 0xB4, CHR 0xA5]"

section \<open>The request operation (\<open>request\<close>)\<close>

text \<open>
  The configuration handed to the transport (the head of \<open>request\<close>): the stored token
  is read, the \<open>Authorization\<close> header is set when the token value is truthy and
  \<open>ignoreAuth\<close> is not set, and the path variables are substituted into the URL.
\<close>

definition dispatchConfig ::
  "('d, 'q) RequestConfig \<Rightarrow> ('d, 'q) world \<Rightarrow> ('d, 'q) AxiosRequestConfig" where
  "dispatchConfig args w =
     (let tk = getToken w;
          requestUrl = (case pathVariables args of
                          None \<Rightarrow> url args
                        | Some pv \<Rightarrow> replacePathVariables (url args) pv)
      in \<lparr>url = requestUrl, params = params args,
          headers = (if truthy tk \<and> \<not> ignoreAuth args
                     then (headers args)(''Authorization'' \<mapsto>
                            ''Bearer '' @ templateString (field access tk))
                     else headers args),
          config = config args\<rparr>)"

text \<open>
  One run of the body of \<open>request\<close> either settles the promise or ends in the call
  \<open>return request(args)\<close>, which starts the body again in the world reached.
\<close>

datatype ('d, 'q, 'a) step =
    Settle "'a Settled" "('d, 'q) world"
  | Reinvoke "('d, 'q) world"

text \<open>
  Generic failure reporting, the tail of the \<open>catch\<close> block: notify unless
  \<open>silentError\<close>, then rethrow the error if \<open>throwError\<close>, else resolve with the
  failure envelope built from \<open>error?.code\<close> and \<open>error?.message\<close>.
\<close>

definition genericFailure ::
  "('d, 'q) RequestConfig \<Rightarrow> JsError \<Rightarrow> ('d, 'q) world \<Rightarrow> 'a Settled \<times> ('d, 'q) world" where
  "genericFailure args error w =
     (let w1 = (if \<not> silentError args
                then showError (orElse (case response error of
                                          None \<Rightarrow> None
                                        | Some r \<Rightarrow> error_message r) msgRequestFailed) w
                else w)
      in if throwError args then (Rejected error, w1)
         else (Fulfilled (Failure (map_option Str (code error)) (message error)), w1))"

definition settle :: "'a Settled \<times> ('d, 'q) world \<Rightarrow> ('d, 'q, 'a) step" where
  "settle p = Settle (fst p) (snd p)"

text \<open>The \<open>catch (error)\<close> block of \<open>request\<close>.\<close>

definition handleError ::
  "('d, 'q, 'a) env \<Rightarrow> ('d, 'q) RequestConfig \<Rightarrow> JsError \<Rightarrow> ('d, 'q) world
     \<Rightarrow> ('d, 'q, 'a) step" where
  "handleError env args error w =
     (if (case response error of None \<Rightarrow> False | Some r \<Rightarrow> error_status r = 401)
         \<and> \<not> ignoreAuth args
      then
        let currentToken = getToken w in
        if \<not> truthy currentToken then settle (genericFailure args error w)
        else
          let (expired, w1) = isTokenExpired env currentToken w in
          if \<not> expired then settle (genericFailure args error w1)
          else
            let (refreshExpired, w2) = isRefreshTokenExpired env currentToken w1 in
            if refreshExpired then
              let w3 = deleteToken w2;
                  w4 = (if \<not> silentError args
                        then showError (msgRefreshExpired @ msgRelogin) w3 else w3)
              in if throwError args then Settle (Rejected (newError msgRefreshExpired)) w4
                 else Settle (Fulfilled (Failure (Some (Num 401)) (Some msgRefreshExpired))) w4
            else
              let outcome = refreshToken env (events w2) (field refresh currentToken);
                  w3 = emit (Refresh (field refresh currentToken)) w2
              in case outcome of
                   RefreshResolves newToken \<Rightarrow>
                     (case newToken of
                        None \<Rightarrow> settle (genericFailure args error w3)
                      | Some r \<Rightarrow>
                          if success r then Reinvoke (setToken (newData r) w3)
                          else settle (genericFailure args error w3))
                 | RefreshRejects refreshError \<Rightarrow>
                     let w4 = deleteToken w3;
                         w5 = (if \<not> silentError args
                               then showError (msgRefreshFailed @ msgRelogin) w4 else w4)
                     in if throwError args then Settle (Rejected refreshError) w5
                        else Settle (Fulfilled (Failure (Some (Num 401)) (Some msgRefreshFailed))) w5
      else settle (genericFailure args error w))"

text \<open>The body of \<open>request\<close>, up to its \<open>return\<close>, its \<open>throw\<close> or the recursive call.\<close>

definition request_body ::
  "('d, 'q, 'a) env \<Rightarrow> ('d, 'q) RequestConfig \<Rightarrow> ('d, 'q) world \<Rightarrow> ('d, 'q, 'a) step" where
  "request_body env args w =
     (let cfg = dispatchConfig args w;
          outcome = axios env (events w) cfg;
          w1 = emit (Dispatch cfg) w
      in case outcome of
           Resolves resp \<Rightarrow>
             if status resp = 200
             then Settle (Fulfilled (Success (body_data (data resp)))) w1
             else handleError env args
                    (newError (orElse (body_errorMessage (data resp)) msgRequestFailed)) w1
         | Rejects error \<Rightarrow> handleError env args error w1)"

text \<open>
  \<open>request\<close> itself: the body, run again from the start on \<open>return request(args)\<close>.
  Nothing bounds the number of runs, so the result is an option: \<open>None\<close> when the call
  never settles.
\<close>

partial_function (option) request ::
  "('d, 'q, 'a) env \<Rightarrow> ('d, 'q) RequestConfig \<Rightarrow> ('d, 'q) world
     \<Rightarrow> ('a Settled \<times> ('d, 'q) world) option" where
  "request env args w =
     (case request_body env args w of
        Settle r w' \<Rightarrow> Some (r, w')
      | Reinvoke w' \<Rightarrow> request env args w')"

section \<open>Observing a trace\<close>

definition isDispatch :: "('d, 'q) event \<Rightarrow> bool" where
  "isDispatch e = (case e of Dispatch c \<Rightarrow> True | _ \<Rightarrow> False)"

definition isRefresh :: "('d, 'q) event \<Rightarrow> bool" where
  "isRefresh e = (case e of Refresh rt \<Rightarrow> True | _ \<Rightarrow> False)"

definition isStoreEvent :: "('d, 'q) event \<Rightarrow> bool" where
  "isStoreEvent e = (case e of SetItem t \<Rightarrow> True | RemoveItem \<Rightarrow> True | _ \<Rightarrow> False)"

text \<open>
  The conditions of the refresh protocol, for one run of the body started in world \<open>w\<close>,
  read off the collaborators' answers rather than off the code: the protocol is entered
  when the transport rejects with a 401 response and \<open>ignoreAuth\<close> is not set; the two
  expiry predicates compare the stored token with the clock as read after the dispatch;
  the refresh collaborator's reply is the one it gives to the stored refresh value after
  the two readings of the clock.
\<close>

definition protocolEntered ::
  "('d, 'q, 'a) env \<Rightarrow> ('d, 'q) RequestConfig \<Rightarrow> ('d, 'q) world \<Rightarrow> bool" where
  "protocolEntered env args w \<longleftrightarrow>
     (case axios env (events w) (dispatchConfig args w) of
        Rejects error \<Rightarrow>
          (case response error of None \<Rightarrow> False | Some r \<Rightarrow> error_status r = 401)
      | Resolves resp \<Rightarrow> False)
     \<and> \<not> ignoreAuth args"

definition tokenExpired ::
  "('d, 'q, 'a) env \<Rightarrow> ('d, 'q) RequestConfig \<Rightarrow> ('d, 'q) world \<Rightarrow> bool" where
  "tokenExpired env args w \<longleftrightarrow>
     (case localStorage w of
        None \<Rightarrow> False
      | Some t \<Rightarrow>
          accessExpiredAt t < now env (events w @ [Dispatch (dispatchConfig args w)]) \<or>
          refreshExpiredAt t < now env (events w @ [Dispatch (dispatchConfig args w)]))"

definition refreshExpired ::
  "('d, 'q, 'a) env \<Rightarrow> ('d, 'q) RequestConfig \<Rightarrow> ('d, 'q) world \<Rightarrow> bool" where
  "refreshExpired env args w \<longleftrightarrow>
     (case localStorage w of
        None \<Rightarrow> False
      | Some t \<Rightarrow>
          refreshExpiredAt t
            < now env (events w @ [Dispatch (dispatchConfig args w), DateNow]))"

definition refreshReply ::
  "('d, 'q, 'a) env \<Rightarrow> ('d, 'q) RequestConfig \<Rightarrow> ('d, 'q) world \<Rightarrow> RefreshOutcome" where
  "refreshReply env args w =
     refreshToken env (events w @ [Dispatch (dispatchConfig args w), DateNow, DateNow])
       (map_option refresh (localStorage w))"

text \<open>
  When a run should remove the token (a 401 with both expiry predicates true, or a
  refresh whose promise rejects) and which token it should write (the data of a refresh
  that resolves with \<open>success\<close> true), in the words of the claim about the store.
\<close>

definition deletesToken ::
  "('d, 'q, 'a) env \<Rightarrow> ('d, 'q) RequestConfig \<Rightarrow> ('d, 'q) world \<Rightarrow> bool" where
  "deletesToken env args w \<longleftrightarrow>
     protocolEntered env args w \<and> tokenExpired env args w \<and>
     (refreshExpired env args w \<or>
      (case refreshReply env args w of RefreshRejects e \<Rightarrow> True | RefreshResolves x \<Rightarrow> False))"

definition writesToken ::
  "('d, 'q, 'a) env \<Rightarrow> ('d, 'q) RequestConfig \<Rightarrow> ('d, 'q) world \<Rightarrow> token option" where
  "writesToken env args w =
     (if protocolEntered env args w \<and> tokenExpired env args w \<and> \<not> refreshExpired env args w
      then (case refreshReply env args w of
              RefreshResolves (Some rsp) \<Rightarrow> if success rsp then Some (newData rsp) else None
            | RefreshResolves None \<Rightarrow> None
            | RefreshRejects e \<Rightarrow> None)
      else None)"

text \<open>
  The world after a run that wrote \<open>t'\<close>: the store overwritten, the trace extended by
  the dispatch, the two readings of the clock, the refresh call and the write. A write
  chain is a sequence of worlds each of which follows from the one before by such a run.
\<close>

definition afterWrite ::
  "('d, 'q) RequestConfig \<Rightarrow> ('d, 'q) world \<Rightarrow> token \<Rightarrow> ('d, 'q) world" where
  "afterWrite args w t' =
     \<lparr>localStorage = Some t',
      events = events w @ [Dispatch (dispatchConfig args w), DateNow, DateNow,
                           Refresh (map_option refresh (localStorage w)), SetItem t']\<rparr>"

fun writeChain ::
  "('d, 'q, 'a) env \<Rightarrow> ('d, 'q) RequestConfig \<Rightarrow> ('d, 'q) world list \<Rightarrow> bool" where
  "writeChain env args [] = True"
| "writeChain env args [w] = True"
| "writeChain env args (w # w1 # ws) =
     ((case writesToken env args w of
         None \<Rightarrow> False
       | Some t' \<Rightarrow> w1 = afterWrite args w t')
      \<and> writeChain env args (w1 # ws))"

section \<open>Concrete collaborators and inputs\<close>

text \<open>
  A scripted environment: the transport answers its \<open>n\<close>-th dispatch with the \<open>n\<close>-th
  entry of a script and every later one with a final answer; the refresh collaborator
  always gives the same answer; the clock stands still.
\<close>

definition scriptedEnv ::
  "nat AxiosOutcome list \<Rightarrow> nat AxiosOutcome \<Rightarrow> RefreshOutcome \<Rightarrow> int \<Rightarrow> (unit, unit, nat) env" where
  "scriptedEnv script final reply clock =
     \<lparr>axios = (\<lambda>h c. if length (filter isDispatch h) < length script
                       then script ! length (filter isDispatch h) else final),
      refreshToken = (\<lambda>h rt. reply),
      now = (\<lambda>h. clock)\<rparr>"

definition staleToken :: token where
  \<comment> \<open>at time 150 the access token has expired, the refresh token has not\<close>
  "staleToken = \<lparr>access = ''A'', refresh = ''R'', accessExpiredAt = 100, refreshExpiredAt = 200\<rparr>"

definition freshToken :: token where
  "freshToken = \<lparr>access = ''B'', refresh = ''S'', accessExpiredAt = 1000, refreshExpiredAt = 2000\<rparr>"

definition unauthorizedError :: JsError where
  "unauthorizedError =
     \<lparr>response = Some \<lparr>error_status = 401, error_message = None\<rparr>,
      code = Some ''ERR_BAD_REQUEST'', message = Some ''Request failed with status code 401''\<rparr>"

definition networkError :: JsError where
  "networkError = \<lparr>response = None, code = Some ''ERR_NETWORK'', message = Some ''Network Error''\<rparr>"

definition ok7 :: "nat AxiosOutcome" where
  "ok7 = Resolves \<lparr>status = 200, data = \<lparr>body_data = 7, body_errorMessage = None\<rparr>\<rparr>"

definition plainArgs :: "(unit, unit) RequestConfig" where
  "plainArgs = \<lparr>url = ''/api/user'', params = (), headers = Map.empty, config = (),
                pathVariables = None, ignoreAuth = False, silentError = False, throwError = False\<rparr>"

definition stuckEnv :: "(unit, unit, nat) env" where
  \<comment> \<open>every dispatch is answered 401 and every refresh succeeds with a token whose access
      part has already expired\<close>
  "stuckEnv = scriptedEnv [] (Rejects unauthorizedError)
                (RefreshResolves (Some \<lparr>success = True, newData = staleToken\<rparr>)) 150"

section \<open>Basic facts\<close>

lemmas world_ops = emit_def getToken_def setToken_def deleteToken_def showError_def
  isTokenExpired_def isRefreshTokenExpired_def laterThan_def field_def truthy_def

lemmas examples = scriptedEnv_def staleToken_def freshToken_def unauthorizedError_def
  networkError_def ok7_def plainArgs_def stuckEnv_def

lemmas frame_defs = protocolEntered_def tokenExpired_def refreshExpired_def refreshReply_def
  deletesToken_def writesToken_def afterWrite_def

lemma genericFailure_world:
  "snd (genericFailure args error w) =
     w\<lparr>events := events w @
         (if silentError args then []
          else [ShowError (orElse (case response error of None \<Rightarrow> None
                                   | Some r \<Rightarrow> error_message r) msgRequestFailed)])\<rparr>"
  by (simp add: genericFailure_def showError_def emit_def)

lemma replacePathVariables_last:
  "replacePathVariables u pv =
     (if pv = [] then u else replaceAll [] u (snd (last pv)))"
  unfolding replacePathVariables_def
  by (induction pv rule: rev_induct) (auto split: prod.splits)

section \<open>A 200 response\<close>

text \<open>
  C9. When the transport resolves with status 200, the call resolves with the success
  envelope carrying the body's \<open>data\<close> field; the only effect is the dispatch itself,
  so the notifier is not called and the stored token is untouched.
\<close>

theorem status_200_success:
  assumes "axios env (events w) (dispatchConfig args w) = Resolves resp"
      and "status resp = 200"
  shows "request env args w =
           Some (Fulfilled (Success (body_data (data resp))),
                 w\<lparr>events := events w @ [Dispatch (dispatchConfig args w)]\<rparr>)"
  using assms by (subst request.simps) (simp add: request_body_def emit_def)

theorem status_200_success_witness:
  "request (scriptedEnv [] ok7 (RefreshRejects networkError) 150) plainArgs
       \<lparr>localStorage = Some staleToken, events = []\<rparr> =
     Some (Fulfilled (Success 7),
           \<lparr>localStorage = Some staleToken,
            events = [Dispatch \<lparr>url = ''/api/user'', params = (),
                                headers = [''Authorization'' \<mapsto> ''Bearer A''],
                                config = ()\<rparr>]\<rparr>)"
  using status_200_success
    [of "scriptedEnv [] ok7 (RefreshRejects networkError) 150"
        "\<lparr>localStorage = Some staleToken, events = []\<rparr>" plainArgs
        "\<lparr>status = 200, data = \<lparr>body_data = 7, body_errorMessage = None\<rparr>\<rparr>"]
  by (simp add: examples dispatchConfig_def world_ops templateString_def)

section \<open>Descriptors with \<open>ignoreAuth\<close>\<close>

lemma ignoreAuth_result:
  assumes "ignoreAuth args"
  shows "request env args w = Some
           (case axios env (events w) (dispatchConfig args w) of
              Resolves resp \<Rightarrow>
                if status resp = 200
                then (Fulfilled (Success (body_data (data resp))),
                      emit (Dispatch (dispatchConfig args w)) w)
                else genericFailure args
                       (newError (orElse (body_errorMessage (data resp)) msgRequestFailed))
                       (emit (Dispatch (dispatchConfig args w)) w)
            | Rejects error \<Rightarrow>
                genericFailure args error (emit (Dispatch (dispatchConfig args w)) w))"
  using assms by (subst request.simps)
    (simp add: request_body_def handleError_def settle_def Let_def split: AxiosOutcome.splits)

lemma ignoreAuth_frame:
  "localStorage (snd
     (case axios env (events w) (dispatchConfig args w) of
        Resolves resp \<Rightarrow>
          if status resp = 200
          then (Fulfilled (Success (body_data (data resp))),
                emit (Dispatch (dispatchConfig args w)) w)
          else genericFailure args
                 (newError (orElse (body_errorMessage (data resp)) msgRequestFailed))
                 (emit (Dispatch (dispatchConfig args w)) w)
      | Rejects error \<Rightarrow>
          genericFailure args error (emit (Dispatch (dispatchConfig args w)) w)))
     = localStorage w \<and>
   (\<exists>ns. events (snd
       (case axios env (events w) (dispatchConfig args w) of
          Resolves resp \<Rightarrow>
            if status resp = 200
            then (Fulfilled (Success (body_data (data resp))),
                  emit (Dispatch (dispatchConfig args w)) w)
            else genericFailure args
                   (newError (orElse (body_errorMessage (data resp)) msgRequestFailed))
                   (emit (Dispatch (dispatchConfig args w)) w)
        | Rejects error \<Rightarrow>
            genericFailure args error (emit (Dispatch (dispatchConfig args w)) w)))
       = events w @ Dispatch (dispatchConfig args w) # ns \<and>
     set ns \<subseteq> range ShowError)"
  by (simp add: genericFailure_world emit_def split: AxiosOutcome.splits)

text \<open>
  C6. With \<open>ignoreAuth\<close> set, whatever the store holds: the dispatched call carries
  exactly the caller's headers (no \<open>Authorization\<close> header is attached); a failure of
  any kind, a 401 included, goes straight to generic failure reporting; the call always
  settles, leaves the stored token as it was, and its trace consists of the one dispatch
  followed by notifier calls only, so the clock is not read (the expiry predicates do not
  run), the refresh collaborator is not called and the token is neither deleted nor
  written.
\<close>

theorem ignoreAuth_skips_protocol:
  assumes "ignoreAuth args"
  shows "headers (dispatchConfig args w) = headers args \<and>
         request env args w = Some
           (case axios env (events w) (dispatchConfig args w) of
              Resolves resp \<Rightarrow>
                if status resp = 200
                then (Fulfilled (Success (body_data (data resp))),
                      emit (Dispatch (dispatchConfig args w)) w)
                else genericFailure args
                       (newError (orElse (body_errorMessage (data resp)) msgRequestFailed))
                       (emit (Dispatch (dispatchConfig args w)) w)
            | Rejects error \<Rightarrow>
                genericFailure args error (emit (Dispatch (dispatchConfig args w)) w)) \<and>
         (\<exists>r w' ns. request env args w = Some (r, w') \<and>
             localStorage w' = localStorage w \<and>
             events w' = events w @ Dispatch (dispatchConfig args w) # ns \<and>
             set ns \<subseteq> range ShowError)"
proof (intro conjI)
  show "headers (dispatchConfig args w) = headers args"
    using assms by (simp add: dispatchConfig_def)
  show "request env args w = Some
           (case axios env (events w) (dispatchConfig args w) of
              Resolves resp \<Rightarrow>
                if status resp = 200
                then (Fulfilled (Success (body_data (data resp))),
                      emit (Dispatch (dispatchConfig args w)) w)
                else genericFailure args
                       (newError (orElse (body_errorMessage (data resp)) msgRequestFailed))
                       (emit (Dispatch (dispatchConfig args w)) w)
            | Rejects error \<Rightarrow>
                genericFailure args error (emit (Dispatch (dispatchConfig args w)) w))"
    (is "_ = Some ?res")
    by (rule ignoreAuth_result[OF assms])
  obtain r w' where p: "?res = (r, w')" by (cases ?res)
  from ignoreAuth_frame[where env=env and w=w and args=args] obtain ns where
    n: "localStorage (snd ?res) = localStorage w"
       "events (snd ?res) = events w @ Dispatch (dispatchConfig args w) # ns"
       "set ns \<subseteq> range ShowError"
    by blast
  have "request env args w = Some (r, w')"
    using ignoreAuth_result[OF assms, where env=env and w=w] p by simp
  moreover have "localStorage w' = localStorage w" using n(1) p by simp
  moreover have "events w' = events w @ Dispatch (dispatchConfig args w) # ns"
    using n(2) p by simp
  ultimately show "\<exists>r w' ns. request env args w = Some (r, w') \<and>
             localStorage w' = localStorage w \<and>
             events w' = events w @ Dispatch (dispatchConfig args w) # ns \<and>
             set ns \<subseteq> range ShowError"
    using n(3) by blast
qed

theorem ignoreAuth_skips_protocol_witness:
  "headers (dispatchConfig (plainArgs\<lparr>ignoreAuth := True\<rparr>)
              \<lparr>localStorage = Some staleToken, events = []\<rparr>) = Map.empty \<and>
   request (scriptedEnv [] (Rejects unauthorizedError) (RefreshRejects networkError) 250)
       (plainArgs\<lparr>ignoreAuth := True\<rparr>) \<lparr>localStorage = Some staleToken, events = []\<rparr> =
     Some (Fulfilled (Failure (Some (Str ''ERR_BAD_REQUEST''))
                              (Some ''Request failed with status code 401'')),
           \<lparr>localStorage = Some staleToken,
            events = [Dispatch \<lparr>url = ''/api/user'', params = (), headers = Map.empty,
                                config = ()\<rparr>,
                      ShowError msgRequestFailed]\<rparr>)"
  using ignoreAuth_skips_protocol
    [of "plainArgs\<lparr>ignoreAuth := True\<rparr>" "\<lparr>localStorage = Some staleToken, events = []\<rparr>"
        "scriptedEnv [] (Rejects unauthorizedError) (RefreshRejects networkError) 250"]
  by (simp add: examples dispatchConfig_def world_ops genericFailure_def orElse_def)

section \<open>A 401 with a token that has not expired\<close>

text \<open>
  C7. When the transport rejects with a 401 response while a token is stored that is
  expired by neither predicate at the reading of the clock (the clock is not after
  \<open>accessExpiredAt\<close> and not after \<open>refreshExpiredAt\<close>), the call ends in generic
  failure reporting: the notifier gets the server's message or the default unless
  \<open>silentError\<close>, and the call rejects with the caught error if \<open>throwError\<close>, else
  resolves with the failure envelope of the error's \<open>code\<close> and \<open>message\<close>. The trace
  gains the dispatch, one reading of the clock (none with \<open>ignoreAuth\<close>) and the
  notifier call: the refresh collaborator is not called and the store is not modified.
\<close>

theorem unexpired_token_generic_failure:
  assumes "axios env (events w) (dispatchConfig args w) = Rejects error"
      and "response error = Some r" and "error_status r = 401"
      and "localStorage w = Some t"
      and "\<not> accessExpiredAt t < now env (events w @ [Dispatch (dispatchConfig args w)])"
      and "\<not> refreshExpiredAt t < now env (events w @ [Dispatch (dispatchConfig args w)])"
  shows "request env args w =
           Some (if throwError args then Rejected error
                 else Fulfilled (Failure (map_option Str (code error)) (message error)),
                 w\<lparr>events := events w @ [Dispatch (dispatchConfig args w)]
                    @ (if ignoreAuth args then [] else [DateNow])
                    @ (if silentError args then []
                       else [ShowError (orElse (error_message r) msgRequestFailed)])\<rparr>)"
  using assms by (subst request.simps)
    (simp add: request_body_def handleError_def genericFailure_def settle_def world_ops)

theorem unexpired_token_generic_failure_witness:
  "request (scriptedEnv [] (Rejects unauthorizedError) (RefreshRejects networkError) 50)
       plainArgs \<lparr>localStorage = Some staleToken, events = []\<rparr> =
     Some (Fulfilled (Failure (Some (Str ''ERR_BAD_REQUEST''))
                              (Some ''Request failed with status code 401'')),
           \<lparr>localStorage = Some staleToken,
            events = [Dispatch \<lparr>url = ''/api/user'', params = (),
                                headers = [''Authorization'' \<mapsto> ''Bearer A''], config = ()\<rparr>,
                      DateNow, ShowError msgRequestFailed]\<rparr>)"
  using unexpired_token_generic_failure
    [of "scriptedEnv [] (Rejects unauthorizedError) (RefreshRejects networkError) 50"
        "\<lparr>localStorage = Some staleToken, events = []\<rparr>" plainArgs unauthorizedError
        "\<lparr>error_status = 401, error_message = None\<rparr>" staleToken]
  by (simp add: examples dispatchConfig_def world_ops templateString_def orElse_def)

section \<open>A 401 with an expired refresh token\<close>

text \<open>
  C4, as stated, for a call with \<open>ignoreAuth\<close> set: the transport rejects with a 401
  while both expiry times of the stored token (100 and 200) are before the clock (250),
  yet the token stays in the store and the failure is the generic one, built from the
  caught error.
\<close>

theorem refresh_expired_ignoreAuth_counterexample:
  "request (scriptedEnv [] (Rejects unauthorizedError) (RefreshRejects networkError) 250)
       (plainArgs\<lparr>ignoreAuth := True\<rparr>) \<lparr>localStorage = Some staleToken, events = []\<rparr> =
     Some (Fulfilled (Failure (Some (Str ''ERR_BAD_REQUEST''))
                              (Some ''Request failed with status code 401'')),
           \<lparr>localStorage = Some staleToken,
            events = [Dispatch \<lparr>url = ''/api/user'', params = (), headers = Map.empty,
                                config = ()\<rparr>,
                      ShowError msgRequestFailed]\<rparr>)"
  by (subst request.simps)
    (simp add: request_body_def handleError_def genericFailure_def settle_def examples
       dispatchConfig_def world_ops orElse_def)

text \<open>
  C4, amended: for a call without \<open>ignoreAuth\<close> whose transport rejects with a 401
  while the stored token's \<open>accessExpiredAt\<close> and \<open>refreshExpiredAt\<close> are before the
  clock when the two predicates read it, the stored token is deleted, the refresh
  collaborator is not called, the notifier is called exactly once with the fixed
  "refresh token expired, please log in again" message unless \<open>silentError\<close> (then not
  at all), and the call rejects with an error of the fixed message if \<open>throwError\<close>,
  else resolves with the failure envelope of code 401 and the fixed message.
\<close>

theorem refresh_expired_clears_token:
  assumes "axios env (events w) (dispatchConfig args w) = Rejects error"
      and "response error = Some r" and "error_status r = 401"
      and "\<not> ignoreAuth args"
      and "localStorage w = Some t"
      and "accessExpiredAt t < now env (events w @ [Dispatch (dispatchConfig args w)])"
      and "refreshExpiredAt t < now env (events w @ [Dispatch (dispatchConfig args w), DateNow])"
  shows "request env args w =
           Some (if throwError args then Rejected (newError msgRefreshExpired)
                 else Fulfilled (Failure (Some (Num 401)) (Some msgRefreshExpired)),
                 \<lparr>localStorage = None,
                  events = events w
                    @ [Dispatch (dispatchConfig args w), DateNow, DateNow, RemoveItem]
                    @ (if silentError args then []
                       else [ShowError (msgRefreshExpired @ msgRelogin)])\<rparr>)"
  using assms by (subst request.simps)
    (simp add: request_body_def handleError_def world_ops)

theorem refresh_expired_clears_token_witness:
  "request (scriptedEnv [] (Rejects unauthorizedError) (RefreshRejects networkError) 250)
       plainArgs \<lparr>localStorage = Some staleToken, events = []\<rparr> =
     Some (Fulfilled (Failure (Some (Num 401)) (Some msgRefreshExpired)),
           \<lparr>localStorage = None,
            events = [Dispatch \<lparr>url = ''/api/user'', params = (),
                                headers = [''Authorization'' \<mapsto> ''Bearer A''], config = ()\<rparr>,
                      DateNow, DateNow, RemoveItem,
                      ShowError (msgRefreshExpired @ msgRelogin)]\<rparr>)"
  using refresh_expired_clears_token
    [of "scriptedEnv [] (Rejects unauthorizedError) (RefreshRejects networkError) 250"
        "\<lparr>localStorage = Some staleToken, events = []\<rparr>" plainArgs unauthorizedError
        "\<lparr>error_status = 401, error_message = None\<rparr>" staleToken]
  by (simp add: examples dispatchConfig_def world_ops templateString_def)

section \<open>A failed refresh\<close>




section \<open>Termination\<close>

text \<open>What one run of the body adds to the trace, and when it ends in the recursive call.\<close>

lemma request_body_settle_counts:
  assumes "request_body env args w = Settle r w'"
  shows "\<exists>new. events w' = events w @ Dispatch (dispatchConfig args w) # new
           \<and> filter isDispatch new = [] \<and> length (filter isRefresh new) \<le> 1"
  using assms
  by (auto simp add: request_body_def handleError_def world_ops settle_def isDispatch_def isRefresh_def
      genericFailure_world Let_def split: AxiosOutcome.splits option.splits RefreshOutcome.splits if_splits)

lemma request_body_reinvoke_shape:
  assumes "request_body env args w = Reinvoke w1"
  shows "\<exists>rt rsp. refreshToken env (events w @ [Dispatch (dispatchConfig args w), DateNow, DateNow]) rt
               = RefreshResolves (Some rsp) \<and> success rsp
           \<and> localStorage w1 = Some (newData rsp)
           \<and> events w1 = events w @ [Dispatch (dispatchConfig args w), DateNow, DateNow,
                                       Refresh rt, SetItem (newData rsp)]"
  using assms
  by (auto simp add: request_body_def handleError_def world_ops settle_def
      Let_def split: AxiosOutcome.splits option.splits RefreshOutcome.splits if_splits)

lemma request_body_fresh_settles:
  assumes "localStorage w = Some t"
      and "now env (events w @ [Dispatch (dispatchConfig args w)]) \<le> accessExpiredAt t"
      and "now env (events w @ [Dispatch (dispatchConfig args w)]) \<le> refreshExpiredAt t"
  shows "\<exists>r w' new. request_body env args w = Settle r w'
           \<and> events w' = events w @ Dispatch (dispatchConfig args w) # new
           \<and> filter isDispatch new = [] \<and> filter isRefresh new = []"
  using assms
  by (auto simp add: request_body_def handleError_def world_ops settle_def isDispatch_def isRefresh_def
      genericFailure_world genericFailure_def Let_def split: AxiosOutcome.splits option.splits)

text \<open>
  The stuck environment: every run of the body ends in the recursive call, so no result
  is ever produced.
\<close>

lemma stuck_body:
  "localStorage w = Some staleToken \<Longrightarrow>
     \<exists>w'. request_body stuckEnv plainArgs w = Reinvoke w' \<and> localStorage w' = Some staleToken"
  by (simp add: request_body_def handleError_def world_ops examples)

lemma stuck_no_result:
  assumes "request stuckEnv plainArgs w = Some y" and "localStorage w = Some staleToken"
  shows False
proof -
  have "stuckEnv = stuckEnv \<and> plainArgs = plainArgs \<and> localStorage w = Some staleToken
          \<longrightarrow> False"
  proof (rule request.raw_induct
      [where P = "\<lambda>env args w y. env = stuckEnv \<and> args = plainArgs \<and>
                     localStorage w = Some staleToken \<longrightarrow> False", OF _ assms(1)])
    fix f and env :: "(unit, unit, nat) env" and args w
      and y :: "nat Settled \<times> (unit, unit) world"
    assume IH: "\<And>env args w y. f env args w = Some y \<Longrightarrow>
                  env = stuckEnv \<and> args = plainArgs \<and> localStorage w = Some staleToken
                    \<longrightarrow> False"
      and body: "(case request_body env args w of Settle r w' \<Rightarrow> Some (r, w')
                  | Reinvoke w' \<Rightarrow> f env args w') = Some y"
    show "env = stuckEnv \<and> args = plainArgs \<and> localStorage w = Some staleToken \<longrightarrow> False"
    proof (intro impI, elim conjE)
      assume e: "env = stuckEnv" "args = plainArgs" and st: "localStorage w = Some staleToken"
      from stuck_body[OF st] obtain w' where
        b: "request_body stuckEnv plainArgs w = Reinvoke w'"
        and s: "localStorage w' = Some staleToken"
        by blast
      from body b e have "f stuckEnv plainArgs w' = Some y" by simp
      then show False using IH s by blast
    qed
  qed
  then show False using assms(2) by blast
qed

lemma stuck_never_settles:
  "localStorage w = Some staleToken \<Longrightarrow> request stuckEnv plainArgs w = None"
  using stuck_no_result by (cases "request stuckEnv plainArgs w") blast+

text \<open>
  C8. Suppose every successful refresh yields a token that neither predicate finds
  expired when the retried call handles its failure: whenever the refresh collaborator
  resolves successfully with a token, the clock read after that token was stored and the
  request dispatched again is after neither of its expiry times. Then every call
  settles, with one envelope or one raised error, after at most two dispatches and at
  most one call of the refresh collaborator, that is after at most one retry. Nothing
  else bounds the recursion: in the stuck environment, where each refresh succeeds with
  an already expired token and each dispatch is answered 401, the call never settles.
\<close>

theorem request_settles_after_one_retry:
  "((\<forall>h rt rsp cfg. refreshToken env h rt = RefreshResolves (Some rsp) \<and> success rsp \<longrightarrow>
        now env (h @ [Refresh rt, SetItem (newData rsp), Dispatch cfg]) \<le> accessExpiredAt (newData rsp) \<and>
        now env (h @ [Refresh rt, SetItem (newData rsp), Dispatch cfg]) \<le> refreshExpiredAt (newData rsp))
     \<longrightarrow> (\<exists>r w' new. request env args w = Some (r, w') \<and> events w' = events w @ new
            \<and> length (filter isDispatch new) \<le> 2 \<and> length (filter isRefresh new) \<le> 1))
   \<and> request stuckEnv plainArgs \<lparr>localStorage = Some staleToken, events = []\<rparr> = None"
proof (intro conjI impI)
  assume fresh: "\<forall>h rt rsp cfg. refreshToken env h rt = RefreshResolves (Some rsp) \<and> success rsp \<longrightarrow>
        now env (h @ [Refresh rt, SetItem (newData rsp), Dispatch cfg]) \<le> accessExpiredAt (newData rsp) \<and>
        now env (h @ [Refresh rt, SetItem (newData rsp), Dispatch cfg]) \<le> refreshExpiredAt (newData rsp)"
  show "\<exists>r w' new. request env args w = Some (r, w') \<and> events w' = events w @ new
            \<and> length (filter isDispatch new) \<le> 2 \<and> length (filter isRefresh new) \<le> 1"
  proof (cases "request_body env args w")
    case (Settle r w')
    from request_body_settle_counts[OF Settle] obtain new where
      n: "events w' = events w @ Dispatch (dispatchConfig args w) # new"
         "filter isDispatch new = []" "length (filter isRefresh new) \<le> 1"
      by blast
    have "request env args w = Some (r, w')"
      by (subst request.simps) (simp add: Settle)
    moreover have "length (filter isDispatch (Dispatch (dispatchConfig args w) # new)) \<le> 2"
      using n(2) by (simp add: isDispatch_def)
    moreover have "length (filter isRefresh (Dispatch (dispatchConfig args w) # new)) \<le> 1"
      using n(3) by (simp add: isRefresh_def)
    ultimately show ?thesis using n(1) by blast
  next
    case (Reinvoke w1)
    from request_body_reinvoke_shape[OF Reinvoke] obtain rt rsp where
      s: "refreshToken env (events w @ [Dispatch (dispatchConfig args w), DateNow, DateNow]) rt
               = RefreshResolves (Some rsp)" "success rsp"
         "localStorage w1 = Some (newData rsp)"
         "events w1 = events w @ [Dispatch (dispatchConfig args w), DateNow, DateNow,
                                       Refresh rt, SetItem (newData rsp)]"
      by blast
    let ?h = "events w @ [Dispatch (dispatchConfig args w), DateNow, DateNow]"
    have e1: "events w1 @ [Dispatch (dispatchConfig args w1)]
               = ?h @ [Refresh rt, SetItem (newData rsp), Dispatch (dispatchConfig args w1)]"
      using s(4) by simp
    from fresh s(1,2) have
      "now env (?h @ [Refresh rt, SetItem (newData rsp), Dispatch (dispatchConfig args w1)])
          \<le> accessExpiredAt (newData rsp) \<and>
       now env (?h @ [Refresh rt, SetItem (newData rsp), Dispatch (dispatchConfig args w1)])
          \<le> refreshExpiredAt (newData rsp)"
      by blast
    then have f: "now env (events w1 @ [Dispatch (dispatchConfig args w1)]) \<le> accessExpiredAt (newData rsp)"
                 "now env (events w1 @ [Dispatch (dispatchConfig args w1)]) \<le> refreshExpiredAt (newData rsp)"
      by (simp_all only: e1)
    from request_body_fresh_settles[OF s(3) f] obtain r w' new where
      n: "request_body env args w1 = Settle r w'"
         "events w' = events w1 @ Dispatch (dispatchConfig args w1) # new"
         "filter isDispatch new = []" "filter isRefresh new = []"
      by blast
    have "request env args w = request env args w1"
      by (subst request.simps) (simp add: Reinvoke)
    also have "\<dots> = Some (r, w')"
      by (subst request.simps) (simp add: n(1))
    finally have res: "request env args w = Some (r, w')" .
    let ?new = "[Dispatch (dispatchConfig args w), DateNow, DateNow, Refresh rt, SetItem (newData rsp)]
                  @ Dispatch (dispatchConfig args w1) # new"
    have "events w' = events w @ ?new" using n(2) s(4) by simp
    moreover have "length (filter isDispatch ?new) \<le> 2"
      using n(3) by (simp add: isDispatch_def)
    moreover have "length (filter isRefresh ?new) \<le> 1"
      using n(4) by (simp add: isRefresh_def)
    ultimately show ?thesis using res by blast
  qed
next
  show "request stuckEnv plainArgs \<lparr>localStorage = Some staleToken, events = []\<rparr> = None"
    by (rule stuck_never_settles) simp
qed


theorem request_settles_after_one_retry_witness:
  "request (scriptedEnv [Rejects unauthorizedError] ok7
              (RefreshResolves (Some \<lparr>success = True, newData = freshToken\<rparr>)) 150)
       plainArgs \<lparr>localStorage = Some staleToken, events = []\<rparr>
     \<noteq> None \<and>
   request stuckEnv plainArgs \<lparr>localStorage = Some staleToken, events = []\<rparr> = None"
  using request_settles_after_one_retry
    [of "scriptedEnv [Rejects unauthorizedError] ok7
              (RefreshResolves (Some \<lparr>success = True, newData = freshToken\<rparr>)) 150"
        plainArgs "\<lparr>localStorage = Some staleToken, events = []\<rparr>"]
  by (auto simp add: examples)

section \<open>A successful refresh\<close>

lemma request_body_reinvoke:
  assumes "axios env (events w) (dispatchConfig args w) = Rejects error"
      and "response error = Some r" and "error_status r = 401"
      and "\<not> ignoreAuth args"
      and "localStorage w = Some t"
      and "accessExpiredAt t < now env (events w @ [Dispatch (dispatchConfig args w)])"
      and "\<not> refreshExpiredAt t < now env (events w @ [Dispatch (dispatchConfig args w), DateNow])"
      and "refreshToken env (events w @ [Dispatch (dispatchConfig args w), DateNow, DateNow])
             (Some (refresh t)) = RefreshResolves (Some rsp)"
      and "success rsp"
  shows "request_body env args w = Reinvoke
                 \<lparr>localStorage = Some (newData rsp),
                  events = events w @ [Dispatch (dispatchConfig args w), DateNow, DateNow,
                                       Refresh (Some (refresh t)), SetItem (newData rsp)]\<rparr>"
  using assms by (simp add: request_body_def handleError_def world_ops)

lemma bearer_of_stored_token:
  "\<not> ignoreAuth args \<Longrightarrow> localStorage w = Some t \<Longrightarrow>
     headers (dispatchConfig args w) ''Authorization'' = Some (''Bearer '' @ access t)"
  by (simp add: dispatchConfig_def world_ops templateString_def)

text \<open>
  C3, as stated, for a refresh collaborator that hands out a token whose access part has
  already expired: the first dispatch is answered 401, the refresh succeeds and the
  request is dispatched again with the new credential; that dispatch is answered 401 as
  well, the new token is found expired, a second refresh succeeds and a third dispatch
  follows. Two retried dispatches occur, not exactly one.
\<close>

theorem refresh_success_two_retries_counterexample:
  "request (scriptedEnv [Rejects unauthorizedError, Rejects unauthorizedError] ok7
              (RefreshResolves (Some \<lparr>success = True, newData = staleToken\<lparr>access := ''B''\<rparr>\<rparr>)) 150)
       plainArgs \<lparr>localStorage = Some staleToken, events = []\<rparr> =
     Some (Fulfilled (Success 7),
           \<lparr>localStorage = Some (staleToken\<lparr>access := ''B''\<rparr>),
            events = [Dispatch \<lparr>url = ''/api/user'', params = (),
                                headers = [''Authorization'' \<mapsto> ''Bearer A''], config = ()\<rparr>,
                      DateNow, DateNow, Refresh (Some ''R''), SetItem (staleToken\<lparr>access := ''B''\<rparr>),
                      Dispatch \<lparr>url = ''/api/user'', params = (),
                                headers = [''Authorization'' \<mapsto> ''Bearer B''], config = ()\<rparr>,
                      DateNow, DateNow, Refresh (Some ''R''), SetItem (staleToken\<lparr>access := ''B''\<rparr>),
                      Dispatch \<lparr>url = ''/api/user'', params = (),
                                headers = [''Authorization'' \<mapsto> ''Bearer B''], config = ()\<rparr>]\<rparr>)"
  apply (subst request.simps)
  apply (simp add: request_body_def handleError_def genericFailure_def settle_def examples
       dispatchConfig_def world_ops orElse_def templateString_def isDispatch_def)
  apply (subst request.simps)
  apply (simp add: request_body_def handleError_def genericFailure_def settle_def examples
       dispatchConfig_def world_ops orElse_def templateString_def isDispatch_def)
  apply (subst request.simps)
  apply (simp add: request_body_def handleError_def genericFailure_def settle_def examples
       dispatchConfig_def world_ops orElse_def templateString_def isDispatch_def)
  done

text \<open>
  C3, amended: for a call without \<open>ignoreAuth\<close> whose transport rejects with a 401
  while the stored access token has expired and the refresh token has not, and whose
  refresh collaborator resolves successfully with a new token: the new token is written
  to the store and the whole operation is run again with the original descriptor, so the
  call's result is the result of that re-invocation; the dispatch of the re-invocation
  carries the new token's access value as bearer credential; and if the re-invoked run
  settles (it does not end in another successful refresh), its result is the call's
  final result and its dispatch is the only one after the refresh, so exactly one retried
  dispatch occurs.
\<close>

theorem refresh_success_reinvokes:
  assumes "axios env (events w) (dispatchConfig args w) = Rejects error"
      and "response error = Some r" and "error_status r = 401"
      and "\<not> ignoreAuth args"
      and "localStorage w = Some t"
      and "accessExpiredAt t < now env (events w @ [Dispatch (dispatchConfig args w)])"
      and "\<not> refreshExpiredAt t < now env (events w @ [Dispatch (dispatchConfig args w), DateNow])"
      and "refreshToken env (events w @ [Dispatch (dispatchConfig args w), DateNow, DateNow])
             (Some (refresh t)) = RefreshResolves (Some rsp)"
      and "success rsp"
  shows "let w2 = \<lparr>localStorage = Some (newData rsp),
                   events = events w @ [Dispatch (dispatchConfig args w), DateNow, DateNow,
                                        Refresh (Some (refresh t)), SetItem (newData rsp)]\<rparr>
         in request env args w = request env args w2 \<and>
            headers (dispatchConfig args w2) ''Authorization''
              = Some (''Bearer '' @ access (newData rsp)) \<and>
            (\<forall>res w3. request_body env args w2 = Settle res w3 \<longrightarrow>
               request env args w = Some (res, w3) \<and>
               (\<exists>rest. events w3 = events w2 @ Dispatch (dispatchConfig args w2) # rest \<and>
                       filter isDispatch rest = []))"
proof -
  let ?w2 = "\<lparr>localStorage = Some (newData rsp),
                   events = events w @ [Dispatch (dispatchConfig args w), DateNow, DateNow,
                                        Refresh (Some (refresh t)), SetItem (newData rsp)]\<rparr>"
  have re: "request env args w = request env args ?w2"
    by (subst request.simps) (simp add: request_body_reinvoke[OF assms])
  have hd: "headers (dispatchConfig args ?w2) ''Authorization''
              = Some (''Bearer '' @ access (newData rsp))"
    by (rule bearer_of_stored_token[OF assms(4)]) simp
  have st: "request env args w = Some (res, w3) \<and>
               (\<exists>rest. events w3 = events ?w2 @ Dispatch (dispatchConfig args ?w2) # rest \<and>
                       filter isDispatch rest = [])"
    if b: "request_body env args ?w2 = Settle res w3" for res w3
  proof
    have "request env args ?w2 = Some (res, w3)"
      by (subst request.simps) (simp add: b)
    with re show "request env args w = Some (res, w3)" by simp
    from request_body_settle_counts[OF b]
    show "\<exists>rest. events w3 = events ?w2 @ Dispatch (dispatchConfig args ?w2) # rest \<and>
                       filter isDispatch rest = []"
      by blast
  qed
  show ?thesis unfolding Let_def using re hd st by blast
qed

theorem refresh_success_reinvokes_witness:
  "request (scriptedEnv [Rejects unauthorizedError] ok7
              (RefreshResolves (Some \<lparr>success = True, newData = freshToken\<rparr>)) 150)
       plainArgs \<lparr>localStorage = Some staleToken, events = []\<rparr> =
     Some (Fulfilled (Success 7),
           \<lparr>localStorage = Some freshToken,
            events = [Dispatch \<lparr>url = ''/api/user'', params = (),
                                headers = [''Authorization'' \<mapsto> ''Bearer A''], config = ()\<rparr>,
                      DateNow, DateNow, Refresh (Some ''R''), SetItem freshToken,
                      Dispatch \<lparr>url = ''/api/user'', params = (),
                                headers = [''Authorization'' \<mapsto> ''Bearer B''], config = ()\<rparr>]\<rparr>)"
proof -
  let ?env = "scriptedEnv [Rejects unauthorizedError] ok7
                (RefreshResolves (Some \<lparr>success = True, newData = freshToken\<rparr>)) 150"
  let ?w = "\<lparr>localStorage = Some staleToken, events = []\<rparr> :: (unit, unit) world"
  let ?cfgA = "\<lparr>url = ''/api/user'', params = (),
                headers = [''Authorization'' \<mapsto> ''Bearer A''], config = ()\<rparr>"
  let ?cfgB = "\<lparr>url = ''/api/user'', params = (),
                headers = [''Authorization'' \<mapsto> ''Bearer B''], config = ()\<rparr>"
  let ?w2 = "\<lparr>localStorage = Some freshToken,
              events = [Dispatch ?cfgA, DateNow, DateNow, Refresh (Some ''R''),
                        SetItem freshToken]\<rparr>"
  have cfg: "dispatchConfig plainArgs ?w = ?cfgA"
    by (simp add: examples dispatchConfig_def world_ops templateString_def)
  have rf: "refresh staleToken = ''R''"
    by (simp add: staleToken_def)
  have body: "request_body ?env plainArgs ?w2 =
                Settle (Fulfilled (Success 7)) (?w2\<lparr>events := events ?w2 @ [Dispatch ?cfgB]\<rparr>)"
    by (simp add: examples dispatchConfig_def world_ops templateString_def request_body_def
        isDispatch_def)
  let ?w2' = "\<lparr>localStorage = Some (newData \<lparr>success = True, newData = freshToken\<rparr>),
                   events = events ?w @ [Dispatch (dispatchConfig plainArgs ?w), DateNow, DateNow,
                                        Refresh (Some (refresh staleToken)),
                                        SetItem (newData \<lparr>success = True, newData = freshToken\<rparr>)]\<rparr>"
  have eq: "?w2' = ?w2"
    by (simp add: cfg rf)
  have "let w2 = ?w2'
         in request ?env plainArgs ?w = request ?env plainArgs w2 \<and>
            headers (dispatchConfig plainArgs w2) ''Authorization''
              = Some (''Bearer '' @ access (newData \<lparr>success = True, newData = freshToken\<rparr>)) \<and>
            (\<forall>res w3. request_body ?env plainArgs w2 = Settle res w3 \<longrightarrow>
               request ?env plainArgs ?w = Some (res, w3) \<and>
               (\<exists>rest. events w3 = events w2 @ Dispatch (dispatchConfig plainArgs w2) # rest \<and>
                       filter isDispatch rest = []))"
    by (rule refresh_success_reinvokes[where error = unauthorizedError
                   and r = "\<lparr>error_status = 401, error_message = None\<rparr>"])
       (simp_all add: examples isDispatch_def cfg)
  then have "\<forall>res w3. request_body ?env plainArgs ?w2' = Settle res w3 \<longrightarrow>
               request ?env plainArgs ?w = Some (res, w3)"
    unfolding Let_def by blast
  then have "request ?env plainArgs ?w
               = Some (Fulfilled (Success 7), ?w2\<lparr>events := events ?w2 @ [Dispatch ?cfgB]\<rparr>)"
    using body unfolding eq by blast
  then show ?thesis by simp
qed

section \<open>The token store's frame\<close>

text \<open>
  One run of the body ends in the recursive call exactly when it wrote a token, and a run
  that settles removes the token exactly when the removal condition holds and otherwise
  leaves the store alone.
\<close>

lemma request_body_Reinvoke_iff:
  "request_body env args w = Reinvoke w1 \<longleftrightarrow>
     (\<exists>t'. writesToken env args w = Some t' \<and> w1 = afterWrite args w t')"
  by (auto simp add: request_body_def handleError_def world_ops settle_def frame_defs
      Let_def newError_def
      split: AxiosOutcome.splits option.splits RefreshOutcome.splits if_splits)

lemma request_body_Settle_frame:
  assumes "request_body env args w = Settle r w'"
  shows "writesToken env args w = None \<and>
         (\<exists>new. events w' = events w @ new \<and>
                filter isStoreEvent new = (if deletesToken env args w then [RemoveItem] else []) \<and>
                localStorage w' = (if deletesToken env args w then None else localStorage w))"
  using assms
  by (auto simp add: request_body_def handleError_def world_ops settle_def frame_defs
      genericFailure_world genericFailure_def isStoreEvent_def Let_def newError_def
      split: AxiosOutcome.splits option.splits RefreshOutcome.splits if_splits)

text \<open>
  A call that settles is a chain of runs that each wrote a token, followed by one run
  that settles.
\<close>

lemma request_body_no_write_settles:
  assumes "writesToken env args w = None"
  shows "\<exists>r w'. request_body env args w = Settle r w'"
proof (cases "request_body env args w")
  case (Settle r w')
  then show ?thesis by blast
next
  case (Reinvoke w1)
  then have "\<exists>t'. writesToken env args w = Some t'"
    using request_body_Reinvoke_iff[of env args w w1] by blast
  with assms show ?thesis by simp
qed

lemma request_chain:
  fixes env :: "('d, 'q, 'a) env"
  assumes "request env args w = Some y"
  shows "\<exists>ws. writeChain env args (w # ws) \<and>
              request_body env args (last (w # ws)) = Settle (fst y) (snd y)"
proof (rule request.raw_induct
    [where P = "\<lambda>env args w y. \<exists>ws. writeChain env args (w # ws) \<and>
                   request_body env args (last (w # ws)) = Settle (fst y) (snd y)",
     OF _ assms])
  fix f and env :: "('d, 'q, 'a) env" and args w and y :: "'a Settled \<times> ('d, 'q) world"
  assume IH: "\<And>env args w y. f env args w = Some y \<Longrightarrow>
                \<exists>ws. writeChain env args (w # ws) \<and>
                     request_body env args (last (w # ws)) = Settle (fst y) (snd y)"
    and body: "(case request_body env args w of Settle r w' \<Rightarrow> Some (r, w')
                | Reinvoke w' \<Rightarrow> f env args w') = Some y"
  show "\<exists>ws. writeChain env args (w # ws) \<and>
             request_body env args (last (w # ws)) = Settle (fst y) (snd y)"
  proof (cases "request_body env args w")
    case (Settle r w')
    with body have "y = (r, w')" by simp
    with Settle have "writeChain env args (w # []) \<and>
             request_body env args (last (w # [])) = Settle (fst y) (snd y)"
      by simp
    then show ?thesis by blast
  next
    case (Reinvoke w1)
    with body have "f env args w1 = Some y" by simp
    from IH[OF this] obtain ws where
      c: "writeChain env args (w1 # ws)"
         "request_body env args (last (w1 # ws)) = Settle (fst y) (snd y)"
      by blast
    from Reinvoke obtain t' where
      t: "writesToken env args w = Some t'" "w1 = afterWrite args w t'"
      using request_body_Reinvoke_iff[of env args w w1] by blast
    have "writeChain env args (w # w1 # ws)" using c(1) t by simp
    moreover have "request_body env args (last (w # w1 # ws)) = Settle (fst y) (snd y)"
      using c(2) by simp
    ultimately show ?thesis by blast
  qed
qed

text \<open>
  C10. For every call of \<open>request\<close>, started in any world: if the removal condition
  holds (a 401 without \<open>ignoreAuth\<close>, the stored token expired, and its refresh part
  expired too or the refresh collaborator's promise rejected), the call settles, its
  only store operation is one removal and the store ends empty; if the refresh
  collaborator resolves with \<open>success\<close> true and data \<open>t'\<close> (in the protocol, with the
  refresh part not expired), the store is overwritten with \<open>t'\<close> and the call continues
  as the call started in the world after that write; on every other path (a success, a
  failure that is not a 401, \<open>ignoreAuth\<close> set, a 401 with no token or with a token that
  is not expired, a refresh that resolves without success) the call settles with no store
  operation and the stored token unchanged. Over the whole call: whenever it settles, its
  runs form a write chain from the starting world, each link a run whose write condition
  held and which wrote exactly that token, and the last run wrote nothing, removed the
  token exactly when the removal condition held in its world, and left the store as the
  chain had it otherwise.
\<close>

theorem request_token_store_frame:
  "(deletesToken env args w \<longrightarrow>
      (\<exists>r w' new. request env args w = Some (r, w') \<and> events w' = events w @ new \<and>
         filter isStoreEvent new = [RemoveItem] \<and> localStorage w' = None)) \<and>
   (\<forall>t'. writesToken env args w = Some t' \<longrightarrow>
      request env args w = request env args (afterWrite args w t')) \<and>
   (\<not> deletesToken env args w \<and> writesToken env args w = None \<longrightarrow>
      (\<exists>r w' new. request env args w = Some (r, w') \<and> events w' = events w @ new \<and>
         filter isStoreEvent new = [] \<and> localStorage w' = localStorage w)) \<and>
   (\<forall>r w'. request env args w = Some (r, w') \<longrightarrow>
      (\<exists>ws new. writeChain env args (w # ws) \<and>
         writesToken env args (last (w # ws)) = None \<and>
         events w' = events (last (w # ws)) @ new \<and>
         filter isStoreEvent new =
           (if deletesToken env args (last (w # ws)) then [RemoveItem] else []) \<and>
         localStorage w' =
           (if deletesToken env args (last (w # ws)) then None
            else localStorage (last (w # ws)))))"
proof (intro conjI allI impI)
  assume d: "deletesToken env args w"
  then have "writesToken env args w = None"
    by (auto simp add: deletesToken_def writesToken_def split: RefreshOutcome.splits)
  from request_body_no_write_settles[OF this] obtain r w' where
    b: "request_body env args w = Settle r w'" by blast
  have "request env args w = Some (r, w')"
    by (subst request.simps) (simp add: b)
  with request_body_Settle_frame[OF b] d
  show "\<exists>r w' new. request env args w = Some (r, w') \<and> events w' = events w @ new \<and>
         filter isStoreEvent new = [RemoveItem] \<and> localStorage w' = None"
    by auto
next
  fix t'
  assume "writesToken env args w = Some t'"
  then have "request_body env args w = Reinvoke (afterWrite args w t')"
    using request_body_Reinvoke_iff[of env args w "afterWrite args w t'"] by blast
  then show "request env args w = request env args (afterWrite args w t')"
    by (subst request.simps) simp
next
  assume n: "\<not> deletesToken env args w \<and> writesToken env args w = None"
  from n have "writesToken env args w = None" by simp
  from request_body_no_write_settles[OF this] obtain r w' where
    b: "request_body env args w = Settle r w'" by blast
  have "request env args w = Some (r, w')"
    by (subst request.simps) (simp add: b)
  with request_body_Settle_frame[OF b] n
  show "\<exists>r w' new. request env args w = Some (r, w') \<and> events w' = events w @ new \<and>
         filter isStoreEvent new = [] \<and> localStorage w' = localStorage w"
    by auto
next
  fix r w'
  assume "request env args w = Some (r, w')"
  from request_chain[OF this] obtain ws where
    c: "writeChain env args (w # ws)"
       "request_body env args (last (w # ws)) = Settle r w'"
    by auto
  from request_body_Settle_frame[OF c(2)] c(1)
  show "\<exists>ws new. writeChain env args (w # ws) \<and>
         writesToken env args (last (w # ws)) = None \<and>
         events w' = events (last (w # ws)) @ new \<and>
         filter isStoreEvent new =
           (if deletesToken env args (last (w # ws)) then [RemoveItem] else []) \<and>
         localStorage w' =
           (if deletesToken env args (last (w # ws)) then None
            else localStorage (last (w # ws)))"
    by blast
qed

theorem request_token_store_frame_witness:
  "(\<exists>r w' new.
     request (scriptedEnv [] (Rejects unauthorizedError) (RefreshRejects networkError) 150)
         plainArgs \<lparr>localStorage = Some staleToken, events = []\<rparr> = Some (r, w') \<and>
     events w' = new \<and> filter isStoreEvent new = [RemoveItem] \<and> localStorage w' = None) \<and>
   request (scriptedEnv [Rejects unauthorizedError] ok7
              (RefreshResolves (Some \<lparr>success = True, newData = freshToken\<rparr>)) 150)
       plainArgs \<lparr>localStorage = Some staleToken, events = []\<rparr> =
   request (scriptedEnv [Rejects unauthorizedError] ok7
              (RefreshResolves (Some \<lparr>success = True, newData = freshToken\<rparr>)) 150)
       plainArgs
       \<lparr>localStorage = Some freshToken,
        events = [Dispatch \<lparr>url = ''/api/user'', params = (),
                            headers = [''Authorization'' \<mapsto> ''Bearer A''], config = ()\<rparr>,
                  DateNow, DateNow, Refresh (Some ''R''), SetItem freshToken]\<rparr>"
proof
  show "\<exists>r w' new.
     request (scriptedEnv [] (Rejects unauthorizedError) (RefreshRejects networkError) 150)
         plainArgs \<lparr>localStorage = Some staleToken, events = []\<rparr> = Some (r, w') \<and>
     events w' = new \<and> filter isStoreEvent new = [RemoveItem] \<and> localStorage w' = None"
    using request_token_store_frame
      [of "scriptedEnv [] (Rejects unauthorizedError) (RefreshRejects networkError) 150"
          plainArgs "\<lparr>localStorage = Some staleToken, events = []\<rparr>"]
    by (simp add: examples frame_defs dispatchConfig_def world_ops)
next
  let ?env = "scriptedEnv [Rejects unauthorizedError] ok7
              (RefreshResolves (Some \<lparr>success = True, newData = freshToken\<rparr>)) 150"
  let ?w = "\<lparr>localStorage = Some staleToken, events = []\<rparr> :: (unit, unit) world"
  have wr: "writesToken ?env plainArgs ?w = Some freshToken"
    by (simp add: examples frame_defs dispatchConfig_def world_ops isDispatch_def)
  have aw: "afterWrite plainArgs ?w freshToken =
       \<lparr>localStorage = Some freshToken,
        events = [Dispatch \<lparr>url = ''/api/user'', params = (),
                            headers = [''Authorization'' \<mapsto> ''Bearer A''], config = ()\<rparr>,
                  DateNow, DateNow, Refresh (Some ''R''), SetItem freshToken]\<rparr>"
    by (simp add: afterWrite_def staleToken_def plainArgs_def dispatchConfig_def world_ops
        templateString_def)
  from request_token_store_frame[of ?env plainArgs ?w] wr
  have "request ?env plainArgs ?w = request ?env plainArgs (afterWrite plainArgs ?w freshToken)"
    by blast
  then show "request ?env plainArgs ?w = request ?env plainArgs
       \<lparr>localStorage = Some freshToken,
        events = [Dispatch \<lparr>url = ''/api/user'', params = (),
                            headers = [''Authorization'' \<mapsto> ''Bearer A''], config = ()\<rparr>,
                  DateNow, DateNow, Refresh (Some ''R''), SetItem freshToken]\<rparr>"
    by (simp only: aw)
qed

section \<open>Attaching the credential\<close>

lemma empty_store_header:
  "\<not> ignoreAuth args \<Longrightarrow> localStorage w = None \<Longrightarrow>
     headers (dispatchConfig args w) ''Authorization'' = Some ''Bearer undefined''"
  by (simp add: dispatchConfig_def world_ops templateString_def)

text \<open>
  C5, evaluated at an empty store: with \<open>ignoreAuth\<close> unset and no token stored,
  \<open>getToken\<close> returns the empty object, which is truthy, so the header is attached all
  the same and the dispatched call carries \<open>Authorization: Bearer undefined\<close>.
\<close>

theorem missing_token_bearer_undefined:
  "request (scriptedEnv [] ok7 (RefreshRejects networkError) 150) plainArgs
       \<lparr>localStorage = None, events = []\<rparr> =
     Some (Fulfilled (Success 7),
           \<lparr>localStorage = None,
            events = [Dispatch \<lparr>url = ''/api/user'', params = (),
                                headers = [''Authorization'' \<mapsto> ''Bearer undefined''],
                                config = ()\<rparr>]\<rparr>)"
  by (subst request.simps)
    (simp add: request_body_def examples dispatchConfig_def world_ops templateString_def)

section \<open>Substituting path variables\<close>

lemma replaceAll_no_colon:
  "CHR '':'' \<notin> set s \<Longrightarrow> replaceAll pre s repl = s"
  by (induction s arbitrary: pre) auto

lemma replacePathVariables_no_colon:
  "CHR '':'' \<notin> set u \<Longrightarrow> replacePathVariables u pv = u"
  by (simp add: replacePathVariables_last replaceAll_no_colon)

text \<open>
  C1, evaluated at the claim's own example and at a map that omits a placeholder: every
  placeholder of the template is replaced with the value of the last entry of the map,
  so \<open>/api/:id/:name\<close> with \<open>id\<close> 1 and \<open>name\<close> 2 becomes \<open>/api/2/2\<close>, not
  \<open>/api/1/2\<close>, and with \<open>id\<close> 1 alone it becomes \<open>/api/1/1\<close>: the unmapped
  placeholder \<open>:name\<close> does not stay literal.
\<close>

theorem replacePathVariables_last_value_everywhere:
  "replacePathVariables ''/api/:id/:name'' [(''id'', ''1''), (''name'', ''2'')] = ''/api/2/2'' \<and>
   replacePathVariables ''/api/:id/:name'' [(''id'', ''1'')] = ''/api/1/1''"
  by (simp add: replacePathVariables_def isWordChar_def)

end
